theory Spec2Isabelle
  imports Main "HOL-Library.Word"
begin

section \<open>JavaScript strings\<close>

text \<open>
  The front end (\<^verbatim>\<open>frontend/src/App.tsx\<close>) works on JavaScript strings, which are
  sequences of UTF-16 code units. A code unit is a 16-bit word; a literal of the source
  is written \<open>js ''...''\<close>.
\<close>

type_synonym code_unit = "16 word"
type_synonym jsstring = "code_unit list"

definition js :: "string \<Rightarrow> jsstring" where
  "js s = map (\<lambda>c. of_char c) s"

text \<open>
  \<^verbatim>\<open>String.prototype.trim\<close> removes the ECMAScript WhiteSpace and LineTerminator code
  points from both ends: TAB, LF, VT, FF, CR, SP, NBSP, U+1680, U+2000..U+200A, U+2028,
  U+2029, U+202F, U+205F, U+3000 and U+FEFF.
\<close>

definition isWhiteSpace :: "code_unit \<Rightarrow> bool" where
  "isWhiteSpace c =
     (c = 0x9 \<or> c = 0xA \<or> c = 0xB \<or> c = 0xC \<or> c = 0xD \<or> c = 0x20 \<or> c = 0xA0
      \<or> c = 0x1680 \<or> (0x2000 \<le> c \<and> c \<le> 0x200A) \<or> c = 0x2028 \<or> c = 0x2029
      \<or> c = 0x202F \<or> c = 0x205F \<or> c = 0x3000 \<or> c = 0xFEFF)"

definition trim :: "jsstring \<Rightarrow> jsstring" where
  "trim s = rev (dropWhile isWhiteSpace (rev (dropWhile isWhiteSpace s)))"

text \<open>\<^verbatim>\<open>s.startsWith(p)\<close> and \<^verbatim>\<open>s.includes(p)\<close>.\<close>

definition startsWith :: "jsstring \<Rightarrow> jsstring \<Rightarrow> bool" where
  "startsWith s p = (take (length p) s = p)"

fun includesStr :: "jsstring \<Rightarrow> jsstring \<Rightarrow> bool" where
  "includesStr [] p = (p = [])"
| "includesStr (c # cs) p = (startsWith (c # cs) p \<or> includesStr cs p)"

text \<open>
  \<^verbatim>\<open>s.split(sep)\<close> for a separator of one code unit (the source splits on \<^verbatim>\<open>'.'\<close>):
  the pieces between the separators, the empty string giving one empty piece.
\<close>

fun split :: "code_unit \<Rightarrow> jsstring \<Rightarrow> jsstring list" where
  "split sep [] = [[]]"
| "split sep (c # cs) =
     (if c = sep then [] # split sep cs
      else (case split sep cs of [] \<Rightarrow> [[c]] | x # xs \<Rightarrow> (c # x) # xs))"

text \<open>
  \<^verbatim>\<open>s.replace(p, r)\<close> with a string pattern: the first occurrence of \<open>p\<close> is replaced.
  The replacement strings of the source hold no \<^verbatim>\<open>$\<close>, so they are taken literally.
\<close>

fun replace :: "jsstring \<Rightarrow> jsstring \<Rightarrow> jsstring \<Rightarrow> jsstring" where
  "replace [] p r = (if p = [] then r else [])"
| "replace (c # cs) p r =
     (if startsWith (c # cs) p then r @ drop (length p) (c # cs)
      else c # replace cs p r)"

text \<open>\<^verbatim>\<open>xs.join(sep)\<close> on an array of strings.\<close>

fun join :: "jsstring \<Rightarrow> jsstring list \<Rightarrow> jsstring" where
  "join sep [] = []"
| "join sep [x] = x"
| "join sep (x # y # ys) = x @ sep @ join sep (y # ys)"

text \<open>\<^verbatim>\<open>String(n)\<close> for a non-negative integer: its decimal digits.\<close>

fun String_nat :: "nat \<Rightarrow> jsstring" where
  "String_nat n =
     (if n < 10 then [of_nat (48 + n)]
      else String_nat (n div 10) @ [of_nat (48 + n mod 10)])"

declare String_nat.simps [simp del]

section \<open>The state of the App component\<close>

datatype severity = High | Medium | Low

fun severity_str :: "severity \<Rightarrow> jsstring" where
  "severity_str High = js ''high''"
| "severity_str Medium = js ''medium''"
| "severity_str Low = js ''low''"

record Weakness =
  title :: jsstring
  description :: jsstring
  severity :: severity
  category :: jsstring

record AnalysisResult =
  competitor_name :: jsstring
  target_url :: jsstring
  weaknesses :: "Weakness list"
  analyzed_at :: jsstring
  raw_content_length :: int

record ModelOption =
  opt_id :: jsstring
  opt_name :: jsstring
  opt_daily :: jsstring
  opt_note :: "jsstring option"

datatype tab = AnalyzeTab | ResultsTab | FaqTab

record app_state =
  competitorName :: jsstring
  targetUrl :: jsstring
  isAnalyzing :: bool
  analysisResult :: "AnalysisResult option"
  activeTab :: tab
  error :: "jsstring option"
  model :: jsstring
  modelOptions :: "ModelOption list"

section \<open>The environment: URL parser, configuration, network, local storage\<close>

text \<open>The JSON body of \<^verbatim>\<open>POST /analyze\<close>.\<close>

record analyze_body =
  req_competitor_name :: jsstring
  req_target_url :: jsstring
  req_model :: jsstring

datatype http_request = POST jsstring analyze_body | GET jsstring

text \<open>
  What \<^verbatim>\<open>await response.json()\<close> gives: \<open>NotJson\<close> when it rejects (or, for an error
  body, when the value has no properties to read), \<open>Json v\<close> otherwise.
\<close>

datatype 'a json_body = NotJson | Json 'a

text \<open>
  The outcome of \<^verbatim>\<open>fetch(.../analyze)\<close>: the promise rejects; or the response is ok
  with a body; or it is not ok, with its status, status text and the \<^verbatim>\<open>detail\<close> field
  of its body (\<open>None\<close> when the field is absent).
\<close>

datatype analyze_outcome =
    FetchRejected
  | OkResponse "AnalysisResult json_body"
  | ErrorResponse nat jsstring "jsstring option json_body"

text \<open>
  The outcome of \<^verbatim>\<open>fetch(.../models)\<close>: the promise rejects, or a response with its
  \<^verbatim>\<open>ok\<close> flag and its body; the body's \<^verbatim>\<open>models\<close> is \<open>None\<close> when the body is
  falsy or the field is not an array.
\<close>

datatype models_outcome =
    ModelsRejected
  | ModelsResponse bool "ModelOption list option json_body"

text \<open>
  \<open>url_parses u\<close>: \<^verbatim>\<open>new URL(u)\<close> does not throw (the browser's URL parser).
  \<open>vite_api_url\<close>: \<^verbatim>\<open>import.meta.env.VITE_API_URL\<close>.
\<close>

record env =
  url_parses :: "jsstring \<Rightarrow> bool"
  vite_api_url :: "jsstring option"
  post_analyze :: "jsstring \<Rightarrow> analyze_body \<Rightarrow> analyze_outcome"
  get_models :: "jsstring \<Rightarrow> models_outcome"

text \<open>\<^verbatim>\<open>import.meta.env.VITE_API_URL || 'http://localhost:8000'\<close>\<close>

definition API_BASE_URL :: "env \<Rightarrow> jsstring" where
  "API_BASE_URL e =
     (case vite_api_url e of
        None \<Rightarrow> js ''http://localhost:8000''
      | Some u \<Rightarrow> if u = [] then js ''http://localhost:8000'' else u)"

text \<open>
  \<^verbatim>\<open>localStorage\<close>: access throws (\<open>Blocked\<close>), or it is a map from keys to values.
\<close>

datatype storage = Blocked | Storage "jsstring \<Rightarrow> jsstring option"

datatype 'a js_result = Throws | Returns 'a

fun getItem :: "storage \<Rightarrow> jsstring \<Rightarrow> jsstring option js_result" where
  "getItem Blocked k = Throws"
| "getItem (Storage m) k = Returns (m k)"

section \<open>handleAnalyze\<close>

text \<open>
  Lines 45 to 62: the completion of the trimmed URL (\<^verbatim>\<open>processedUrl\<close>). The protocol
  \<^verbatim>\<open>https://\<close> is put in front when none is there; then \<^verbatim>\<open>www.\<close> is inserted after
  \<^verbatim>\<open>https://\<close> when the URL has no dot, or exactly one dot, and no \<^verbatim>\<open>localhost\<close>.
\<close>

definition processedUrl :: "jsstring \<Rightarrow> jsstring" where
  "processedUrl trimmed =
     (let p = (if \<not> startsWith trimmed (js ''http://'') \<and> \<not> startsWith trimmed (js ''https://'')
               then js ''https://'' @ trimmed else trimmed)
      in if startsWith p (js ''https://'') \<and> \<not> includesStr p (js ''.'')
            \<and> \<not> includesStr p (js ''localhost'')
         then replace p (js ''https://'') (js ''https://www.'')
         else if startsWith p (js ''https://'') \<and> length (split 0x2E p) = 2
                 \<and> \<not> includesStr p (js ''localhost'')
         then (let domain = replace p (js ''https://'') []
               in if length (split 0x2E domain) = 2 then js ''https://www.'' @ domain else p)
         else p)"

text \<open>
  Lines 96 to 112: what the handler does with the outcome of the request; the
  \<^verbatim>\<open>finally\<close> block clears \<^verbatim>\<open>isAnalyzing\<close> on every path.
\<close>

fun afterResponse :: "analyze_outcome \<Rightarrow> app_state \<Rightarrow> app_state" where
  "afterResponse (OkResponse (Json result)) s =
     s\<lparr>analysisResult := Some result, activeTab := ResultsTab, isAnalyzing := False\<rparr>"
| "afterResponse (OkResponse NotJson) s =
     s\<lparr>error := Some (js ''Unable to connect to analysis service. Please check your connection.''),
       isAnalyzing := False\<rparr>"
| "afterResponse (ErrorResponse status statusText (Json detail)) s =
     s\<lparr>error := Some (js ''Analysis failed: '' @
         (case detail of
            None \<Rightarrow> js ''Unknown error''
          | Some d \<Rightarrow> if d = [] then js ''Unknown error'' else d)),
       isAnalyzing := False\<rparr>"
| "afterResponse (ErrorResponse status statusText NotJson) s =
     s\<lparr>error := Some (js ''Analysis failed: HTTP '' @ String_nat status @ js '' '' @ statusText),
       isAnalyzing := False\<rparr>"
| "afterResponse FetchRejected s =
     s\<lparr>error := Some (js ''Unable to connect to analysis service. Please check your connection.''),
       isAnalyzing := False\<rparr>"

text \<open>
  \<^verbatim>\<open>handleAnalyze\<close> (lines 39 to 113), as a function from the environment and the state
  of the render it was created in to the state after it has finished and the requests it
  has sent. \<^verbatim>\<open>competitorName\<close>, \<^verbatim>\<open>targetUrl\<close> and \<^verbatim>\<open>model\<close> are constants of that
  render: \<^verbatim>\<open>setTargetUrl(processedUrl)\<close> changes the state of the next render, not the
  \<^verbatim>\<open>targetUrl\<close> the request body reads on line 91.
\<close>

definition handleAnalyze :: "env \<Rightarrow> app_state \<Rightarrow> app_state \<times> http_request list" where
  "handleAnalyze e s =
     (if trim (competitorName s) = [] \<or> trim (targetUrl s) = [] then
        (s\<lparr>error := Some (js ''Please fill in both competitor name and website URL'')\<rparr>, [])
      else
        let p = processedUrl (trim (targetUrl s)) in
        if \<not> url_parses e p then
          (s\<lparr>error := Some (js ''Invalid URL format. Please enter a valid website URL.'')\<rparr>, [])
        else
          let s1 = (if p \<noteq> targetUrl s then s\<lparr>targetUrl := p\<rparr> else s);
              s2 = s1\<lparr>isAnalyzing := True, analysisResult := None, error := None\<rparr>;
              url = API_BASE_URL e @ js ''/analyze'';
              body = \<lparr>req_competitor_name = trim (competitorName s),
                      req_target_url = trim (targetUrl s),
                      req_model = model s\<rparr>
          in (afterResponse (post_analyze e url body) s2, [POST url body]))"

section \<open>The initial state and the models request on mount\<close>

text \<open>
  Lines 26 to 32: the initial \<^verbatim>\<open>model\<close> is
  \<^verbatim>\<open>localStorage.getItem('preferred_model') || 'gemini-2.5-flash-lite'\<close>, and the default
  when the access throws. An empty stored string is falsy, so it gives the default too.
\<close>

definition initialModel :: "storage \<Rightarrow> jsstring" where
  "initialModel st =
     (case getItem st (js ''preferred_model'') of
        Throws \<Rightarrow> js ''gemini-2.5-flash-lite''
      | Returns None \<Rightarrow> js ''gemini-2.5-flash-lite''
      | Returns (Some v) \<Rightarrow> if v = [] then js ''gemini-2.5-flash-lite'' else v)"

text \<open>Lines 33 to 37: the bundled model list.\<close>

definition bundledModelOptions :: "ModelOption list" where
  "bundledModelOptions =
     [\<lparr>opt_id = js ''gemini-2.5-flash'', opt_name = js ''Gemini 2.5 Flash'',
       opt_daily = js ''20'', opt_note = Some (js ''Severely limited'')\<rparr>,
      \<lparr>opt_id = js ''gemini-2.5-flash-lite'', opt_name = js ''Gemini 2.5 Flash-Lite'',
       opt_daily = js ''1,500'', opt_note = Some (js ''Recommended for Free Tier'')\<rparr>,
      \<lparr>opt_id = js ''gemini-2.5-pro'', opt_name = js ''Gemini 2.5 Pro'',
       opt_daily = js ''0 - 5'', opt_note = Some (js ''Often removed or restricted'')\<rparr>]"

text \<open>Lines 20 to 37: the state of the first render.\<close>

definition initialState :: "storage \<Rightarrow> app_state" where
  "initialState st =
     \<lparr>competitorName = [], targetUrl = [], isAnalyzing = False, analysisResult = None,
      activeTab = AnalyzeTab, error = None, model = initialModel st,
      modelOptions = bundledModelOptions\<rparr>"

text \<open>
  Lines 200 to 224: the effect run on mount. \<open>st\<close> is the local storage as it is when
  the response has arrived. Every failure keeps the state; a non-empty \<^verbatim>\<open>models\<close>
  array replaces \<^verbatim>\<open>modelOptions\<close>, and the first model's id becomes the selected one
  when \<^verbatim>\<open>!stored\<close> holds (nothing stored, or the empty string). When reading the storage
  throws, the inner \<^verbatim>\<open>catch\<close> swallows it and the model is left.
\<close>

definition init :: "env \<Rightarrow> storage \<Rightarrow> app_state \<Rightarrow> app_state \<times> http_request list" where
  "init e st s =
     (let url = API_BASE_URL e @ js ''/models'' in
      (case get_models e url of
         ModelsRejected \<Rightarrow> s
       | ModelsResponse ok body \<Rightarrow>
           if ok then
             (case body of
                NotJson \<Rightarrow> s
              | Json None \<Rightarrow> s
              | Json (Some []) \<Rightarrow> s
              | Json (Some (m # ms)) \<Rightarrow>
                  let s1 = s\<lparr>modelOptions := m # ms\<rparr> in
                  (case getItem st (js ''preferred_model'') of
                     Throws \<Rightarrow> s1
                   | Returns None \<Rightarrow> s1\<lparr>model := opt_id m\<rparr>
                   | Returns (Some v) \<Rightarrow> if v = [] then s1\<lparr>model := opt_id m\<rparr> else s1))
           else s,
       [GET url]))"

section \<open>exportCSV\<close>

text \<open>
  A global replacement of one code unit by a string:
  \<^verbatim>\<open>s.replace(/\n/g, ' ')\<close> is \<open>replaceAll 0xA (js '' '') s\<close> and
  \<^verbatim>\<open>s.replace(/"/g, '""')\<close> is \<open>replaceAll 0x22 [0x22, 0x22] s\<close>.
\<close>

definition replaceAll :: "code_unit \<Rightarrow> jsstring \<Rightarrow> jsstring \<Rightarrow> jsstring" where
  "replaceAll u r s = concat (map (\<lambda>c. if c = u then r else [c]) s)"

text \<open>
  The character class \<^verbatim>\<open>[a-z0-9\-_]\<close> under the flag \<^verbatim>\<open>i\<close>: ASCII letters of both
  cases, digits, hyphen and underscore.
\<close>

definition fileNameChar :: "code_unit \<Rightarrow> bool" where
  "fileNameChar c =
     ((0x61 \<le> c \<and> c \<le> 0x7A) \<or> (0x41 \<le> c \<and> c \<le> 0x5A) \<or> (0x30 \<le> c \<and> c \<le> 0x39)
      \<or> c = 0x2D \<or> c = 0x5F)"

text \<open>Line 132: \<^verbatim>\<open>headers\<close>.\<close>

definition headers :: "jsstring list" where
  "headers = [js ''#'', js ''Title'', js ''Description'', js ''Severity'', js ''Category'']"

text \<open>Lines 133 to 139: \<^verbatim>\<open>rows\<close>, one per weakness, with its index counted from 1.\<close>

definition rows :: "AnalysisResult \<Rightarrow> jsstring list list" where
  "rows r =
     map (\<lambda>(i, w). [String_nat (i + 1), title w, replaceAll 0xA (js '' '') (description w),
                     severity_str (severity w), category w])
       (enumerate 0 (weaknesses r))"

text \<open>
  Line 140, the inner arrow function: a cell between double quotes, its own double
  quotes doubled (\<^verbatim>\<open>'"' + String(c).replace(/"/g, '""') + '"'\<close>; every cell is a
  string, so \<^verbatim>\<open>String(c)\<close> is \<open>c\<close>).
\<close>

definition quoteCell :: "jsstring \<Rightarrow> jsstring" where
  "quoteCell c = [0x22] @ replaceAll 0x22 [0x22, 0x22] c @ [0x22]"

text \<open>
  Line 140: \<^verbatim>\<open>csvContent\<close>, the cells of a row joined by commas and the rows by
  line feeds.
\<close>

definition csvContent :: "AnalysisResult \<Rightarrow> jsstring" where
  "csvContent r =
     join [0xA] (map (\<lambda>row. join [0x2C] (map quoteCell row)) (headers # rows r))"

text \<open>
  What the click on the generated link downloads: the name of the file, the type of the
  blob and its text (a byte order mark, then the CSV).
\<close>

record download =
  file_name :: jsstring
  mime_type :: jsstring
  content :: jsstring

text \<open>Lines 130 to 151. \<open>None\<close>: the function returns at once and nothing is downloaded.\<close>

definition exportCSV :: "AnalysisResult option \<Rightarrow> download option" where
  "exportCSV a =
     (case a of
        None \<Rightarrow> None
      | Some r \<Rightarrow>
          let name = map (\<lambda>c. if fileNameChar c then c else 0x5F)
                       (if competitor_name r = [] then js ''analysis'' else competitor_name r)
          in Some \<lparr>file_name = name @ js ''-report.csv'',
                   mime_type = js ''text/csv;charset=utf-8;'',
                   content = 0xFEFF # csvContent r\<rparr>)"

section \<open>Reading a CSV text back\<close>

text \<open>
  The format the export is meant to produce, as a reader: every cell stands between
  double quotes, a double quote inside a cell is written twice, a comma ends a cell and
  a line feed ends a row. The reader walks the text once; it gives \<open>None\<close> on a text
  that is not of this form (a cell that does not start with a quote, a quote that is
  not closed, a character between a closing quote and the next separator).
\<close>

datatype csv_mode = CellStart | InCell | QuoteSeen

fun readCells ::
  "csv_mode \<Rightarrow> jsstring list list \<Rightarrow> jsstring list \<Rightarrow> jsstring \<Rightarrow> jsstring
   \<Rightarrow> jsstring list list option" where
  "readCells CellStart tbl row cell [] = None"
| "readCells CellStart tbl row cell (c # cs) =
     (if c = 0x22 then readCells InCell tbl row [] cs else None)"
| "readCells InCell tbl row cell [] = None"
| "readCells InCell tbl row cell (c # cs) =
     (if c = 0x22 then readCells QuoteSeen tbl row cell cs
      else readCells InCell tbl row (cell @ [c]) cs)"
| "readCells QuoteSeen tbl row cell [] = Some (tbl @ [row @ [cell]])"
| "readCells QuoteSeen tbl row cell (c # cs) =
     (if c = 0x22 then readCells InCell tbl row (cell @ [0x22]) cs
      else if c = 0x2C then readCells CellStart tbl (row @ [cell]) [] cs
      else if c = 0xA then readCells CellStart (tbl @ [row @ [cell]]) [] [] cs
      else None)"

definition readCSV :: "jsstring \<Rightarrow> jsstring list list option" where
  "readCSV s = readCells CellStart [] [] [] s"

text \<open>The number a string of decimal digits stands for.\<close>

definition decimalValue :: "jsstring \<Rightarrow> nat" where
  "decimalValue s = foldl (\<lambda>a c. 10 * a + (unat c - 48)) 0 s"

section \<open>Example inputs of the front end\<close>

text \<open>
  An environment with no \<^verbatim>\<open>VITE_API_URL\<close>, whose URL parser accepts
  \<^verbatim>\<open>https://www.samsung.com\<close> (as every browser does) and whose server does not answer.
\<close>

definition example_env :: env where
  "example_env =
     \<lparr>url_parses = (\<lambda>u. u = js ''https://www.samsung.com''),
      vite_api_url = None,
      post_analyze = (\<lambda>url body. FetchRejected),
      get_models = (\<lambda>url. ModelsRejected)\<rparr>"

text \<open>The same environment with a server that lists one model.\<close>

definition server_env :: env where
  "server_env =
     example_env\<lparr>get_models := (\<lambda>url. ModelsResponse True (Json (Some
        [\<lparr>opt_id = js ''gemini-2.0-flash'', opt_name = js ''Gemini 2.0 Flash'',
          opt_daily = js ''200'', opt_note = None\<rparr>])))\<rparr>"

text \<open>A local storage that can be read and holds nothing.\<close>

definition empty_storage :: storage where
  "empty_storage = Storage (\<lambda>k. None)"

text \<open>A local storage in which \<^verbatim>\<open>preferred_model\<close> is stored with an empty value.\<close>

definition empty_preference :: storage where
  "empty_preference = Storage (\<lambda>k. if k = js ''preferred_model'' then Some [] else None)"

text \<open>A local storage in which the user's choice \<^verbatim>\<open>gemini-2.5-flash\<close> is stored.\<close>

definition flash_preference :: storage where
  "flash_preference =
     Storage (\<lambda>k. if k = js ''preferred_model'' then Some (js ''gemini-2.5-flash'') else None)"

text \<open>The form filled in with \<^verbatim>\<open>Samsung\<close> and \<^verbatim>\<open>samsung.com\<close>.\<close>

definition samsung_state :: app_state where
  "samsung_state =
     (initialState empty_storage)\<lparr>competitorName := js ''Samsung'', targetUrl := js ''samsung.com''\<rparr>"

text \<open>The form with a competitor name of one space.\<close>

definition blank_state :: app_state where
  "blank_state =
     (initialState empty_storage)\<lparr>competitorName := js '' '', targetUrl := js ''samsung.com''\<rparr>"

text \<open>
  A result with two weaknesses: a title with a double quote in it, and a description
  of two lines.
\<close>

definition example_result :: AnalysisResult where
  "example_result =
     \<lparr>competitor_name = js ''Acme'', target_url = js ''https://acme.example'',
      weaknesses =
        [\<lparr>title = js ''No \"pro\" plan'', description = js ''Pricing page is thin'',
          severity = High, category = js ''Pricing''\<rparr>,
         \<lparr>title = js ''Slow support'', description = js ''Two days'' @ [0xA] @ js ''to answer'',
          severity = Low, category = js ''Support''\<rparr>],
      analyzed_at = js ''2025-01-01T00:00:00'', raw_content_length = 5000\<rparr>"

section \<open>The store: the tables of the SQL schema\<close>

text \<open>
  The schema file creates two tables. Ids are UUIDs and times are timestamps; both are
  natural numbers here. \<^verbatim>\<open>TEXT\<close> columns are strings, all of them \<^verbatim>\<open>NOT NULL\<close>.
\<close>

type_synonym uuid = nat
type_synonym timestamp = nat

text \<open>Lines 5 to 11 of the schema: \<^verbatim>\<open>competitors\<close>.\<close>

record competitor_row =
  c_id :: uuid
  c_name :: string
  c_target_url :: string
  c_created_at :: timestamp
  c_updated_at :: timestamp

text \<open>Lines 14 to 22 of the schema: \<^verbatim>\<open>insights\<close>.\<close>

record insight_row =
  i_id :: uuid
  i_competitor_id :: uuid
  i_weakness_title :: string
  i_weakness_description :: string
  i_severity :: string
  i_category :: string
  i_created_at :: timestamp

record database =
  competitors :: "competitor_row list"
  insights :: "insight_row list"

datatype db_error = UniqueViolation | ForeignKeyViolation | CheckViolation

text \<open>
  \<^verbatim>\<open>DEFAULT gen_random_uuid()\<close>: an id no row of the table has. The random choice is
  replaced by the successor of the largest id in use.
\<close>

definition gen_random_uuid :: "uuid list \<Rightarrow> uuid" where
  "gen_random_uuid used = Suc (foldr max used 0)"

text \<open>
  \<^verbatim>\<open>INSERT INTO competitors (name, target_url) VALUES (n, u) RETURNING id\<close> at time
  \<open>now\<close>: refused when the name is taken (\<^verbatim>\<open>name TEXT NOT NULL UNIQUE\<close>); the id and
  both timestamps take their defaults.
\<close>

definition insert_competitor ::
  "timestamp \<Rightarrow> string \<Rightarrow> string \<Rightarrow> database \<Rightarrow> db_error + uuid \<times> database" where
  "insert_competitor now n u db =
     (if n \<in> set (map c_name (competitors db)) then Inl UniqueViolation
      else
        let i = gen_random_uuid (map c_id (competitors db))
        in Inr (i, db\<lparr>competitors := competitors db @
                  [\<lparr>c_id = i, c_name = n, c_target_url = u,
                    c_created_at = now, c_updated_at = now\<rparr>]\<rparr>))"

text \<open>
  \<^verbatim>\<open>UPDATE competitors SET target_url = u WHERE name = n\<close> at time \<open>now\<close>; the trigger
  \<^verbatim>\<open>update_competitors_updated_at\<close> (lines 43 to 54) sets \<^verbatim>\<open>updated_at\<close> of every
  updated row to \<^verbatim>\<open>NOW()\<close>.
\<close>

definition update_competitor :: "timestamp \<Rightarrow> string \<Rightarrow> string \<Rightarrow> database \<Rightarrow> database" where
  "update_competitor now n u db =
     db\<lparr>competitors :=
          map (\<lambda>r. if c_name r = n then r\<lparr>c_target_url := u, c_updated_at := now\<rparr> else r)
            (competitors db)\<rparr>"

text \<open>The values of one row of an \<^verbatim>\<open>INSERT INTO insights\<close>.\<close>

record insight_values =
  v_competitor_id :: uuid
  v_weakness_title :: string
  v_weakness_description :: string
  v_severity :: string
  v_category :: string

text \<open>
  One \<^verbatim>\<open>INSERT INTO insights\<close> statement with a list of rows, at time \<open>now\<close>. A row
  whose \<^verbatim>\<open>competitor_id\<close> is no competitor's id is refused (\<^verbatim>\<open>REFERENCES competitors(id)\<close>),
  and so is one whose severity is none of the three words (the \<^verbatim>\<open>CHECK\<close> of line 19);
  a refused row refuses the statement, which then inserts nothing.
\<close>

fun insert_insights ::
  "timestamp \<Rightarrow> insight_values list \<Rightarrow> database \<Rightarrow> db_error + database" where
  "insert_insights now [] db = Inr db"
| "insert_insights now (v # vs) db =
     (if v_competitor_id v \<notin> set (map c_id (competitors db)) then Inl ForeignKeyViolation
      else if v_severity v \<notin> {''high'', ''medium'', ''low''} then Inl CheckViolation
      else insert_insights now vs
             (db\<lparr>insights := insights db @
                  [\<lparr>i_id = gen_random_uuid (map i_id (insights db)),
                    i_competitor_id = v_competitor_id v,
                    i_weakness_title = v_weakness_title v,
                    i_weakness_description = v_weakness_description v,
                    i_severity = v_severity v,
                    i_category = v_category v,
                    i_created_at = now\<rparr>]\<rparr>))"

text \<open>
  The constraints of the schema, as a property of a database: primary keys and
  competitor names are unique, every insight refers to a competitor, and every severity
  passes the \<^verbatim>\<open>CHECK\<close>.
\<close>

definition constraints_hold :: "database \<Rightarrow> bool" where
  "constraints_hold db =
     (distinct (map c_id (competitors db))
      \<and> distinct (map c_name (competitors db))
      \<and> distinct (map i_id (insights db))
      \<and> (\<forall>r \<in> set (insights db).
            i_competitor_id r \<in> set (map c_id (competitors db))
            \<and> i_severity r \<in> {''high'', ''medium'', ''low''}))"

section \<open>The Persistence Gateway\<close>

text \<open>
  Modelled from the spec: the Weakness record of the back end (section 3 of the spec);
  the Python sources of the back end are not among the repository files at hand.
\<close>

record weakness =
  w_title :: string
  w_description :: string
  w_severity :: severity
  w_category :: string

text \<open>
  Modelled from the spec: the word the back end stores for a severity (section 3: one of
  the three literal values \<^verbatim>\<open>high\<close>, \<^verbatim>\<open>medium\<close>, \<^verbatim>\<open>low\<close>).
\<close>

fun severity_text :: "severity \<Rightarrow> string" where
  "severity_text High = ''high''"
| "severity_text Medium = ''medium''"
| "severity_text Low = ''low''"

text \<open>
  Modelled from the spec: the failures of \<^verbatim>\<open>save\<close> (4.6: a partial failure, the
  competitor saved and the insights not, is reported apart from a total one).
\<close>

datatype persistence_failure = TotalFailure db_error | PartialFailure uuid db_error

text \<open>
  Modelled from the spec: \<^verbatim>\<open>upsertCompetitor(name, url)\<close> of the store interface
  (section 6), which 4.6 describes as an upsert by name: insert if absent, else update
  \<^verbatim>\<open>targetUrl\<close> and \<^verbatim>\<open>updatedAt\<close>. The database manager of the back end is not among
  the repository files at hand.
\<close>

definition upsertCompetitor ::
  "timestamp \<Rightarrow> string \<Rightarrow> string \<Rightarrow> database \<Rightarrow> db_error + uuid \<times> database" where
  "upsertCompetitor now n u db =
     (case find (\<lambda>r. c_name r = n) (competitors db) of
        None \<Rightarrow> insert_competitor now n u db
      | Some r \<Rightarrow> Inr (c_id r, update_competitor now n u db))"

text \<open>
  Modelled from the spec: \<^verbatim>\<open>insertInsights(competitorId, weaknesses)\<close> of the store
  interface (section 6; 4.6: all Weakness rows are inserted as Insight rows that refer
  to the resolved competitor id). The database manager is not among the repository files at
  hand.
\<close>

definition insertInsights ::
  "timestamp \<Rightarrow> uuid \<Rightarrow> weakness list \<Rightarrow> database \<Rightarrow> db_error + database" where
  "insertInsights now cid ws db =
     insert_insights now
       (map (\<lambda>w. \<lparr>v_competitor_id = cid, v_weakness_title = w_title w,
                   v_weakness_description = w_description w,
                   v_severity = severity_text (w_severity w),
                   v_category = w_category w\<rparr>) ws) db"

text \<open>
  Modelled from the spec: \<^verbatim>\<open>save(competitorName, targetUrl, weaknesses)\<close> of the
  Persistence Gateway (4.6), the upsert followed by the insertion of the insights, not
  as one transaction. It gives the competitor id or the failure, and the database as
  the call leaves it. The database manager is not among the repository files at hand.
\<close>

definition save ::
  "timestamp \<Rightarrow> string \<Rightarrow> string \<Rightarrow> weakness list \<Rightarrow> database
   \<Rightarrow> (persistence_failure + uuid) \<times> database" where
  "save now n u ws db =
     (case upsertCompetitor now n u db of
        Inl e \<Rightarrow> (Inl (TotalFailure e), db)
      | Inr (cid, db1) \<Rightarrow>
          (case insertInsights now cid ws db1 of
             Inl e \<Rightarrow> (Inl (PartialFailure cid e), db1)
           | Inr db2 \<Rightarrow> (Inr cid, db2)))"

text \<open>An insight row holds the fields of a weakness and refers to the competitor \<open>cid\<close>.\<close>

definition insight_of :: "uuid \<Rightarrow> weakness \<Rightarrow> insight_row \<Rightarrow> bool" where
  "insight_of cid w r =
     (i_competitor_id r = cid \<and> i_weakness_title r = w_title w
      \<and> i_weakness_description r = w_description w
      \<and> i_severity r = severity_text (w_severity w) \<and> i_category r = w_category w)"

text \<open>The update of one row, as \<open>update_competitor\<close> does it.\<close>

definition touch :: "timestamp \<Rightarrow> string \<Rightarrow> string \<Rightarrow> competitor_row \<Rightarrow> competitor_row" where
  "touch now n u r = (if c_name r = n then r\<lparr>c_target_url := u, c_updated_at := now\<rparr> else r)"

section \<open>The Generation Client Adapter\<close>

text \<open>
  Modelled from the spec: the ways the generation provider fails (4.4: unavailable
  model, quota exceeded, instantiation error; an attempt that exceeds its timeout counts
  as a provider failure). The back end is not among the repository files at hand.
\<close>

datatype provider_failure = ModelUnavailable | QuotaExceeded | InstantiationError | Timeout

text \<open>
  Modelled from the spec: the failure of \<^verbatim>\<open>generate\<close> (4.4), which carries the model
  ids that were attempted.
\<close>

datatype generation_error = GenerationUnavailable "string list"

text \<open>
  Modelled from the spec: \<^verbatim>\<open>generate(prompt, effectiveId)\<close> of the Generation Client
  Adapter (4.4). The provider is given by what its calls return: \<open>provider k p m\<close> is the
  outcome of the call number \<open>k\<close> of this request, with prompt \<open>p\<close> and model id \<open>m\<close>.
  The second component of the result lists the model ids of the calls made, in order.
  The back end (\<^verbatim>\<open>backend/main.py\<close>) is not among the repository files at hand.
\<close>

definition generate ::
  "(nat \<Rightarrow> string \<Rightarrow> string \<Rightarrow> provider_failure + string) \<Rightarrow> string \<Rightarrow> string \<Rightarrow> string
   \<Rightarrow> (generation_error + string) \<times> string list" where
  "generate provider defaultId prompt effectiveId =
     (case provider 0 prompt effectiveId of
        Inr rawText \<Rightarrow> (Inr rawText, [effectiveId])
      | Inl failure \<Rightarrow>
          if effectiveId \<noteq> defaultId then
            (case provider 1 prompt defaultId of
               Inr rawText \<Rightarrow> (Inr rawText, [effectiveId, defaultId])
             | Inl failure' \<Rightarrow>
                 (Inl (GenerationUnavailable [effectiveId, defaultId]), [effectiveId, defaultId]))
          else (Inl (GenerationUnavailable [effectiveId]), [effectiveId]))"

section \<open>Example inputs of the back end\<close>

definition empty_db :: database where
  "empty_db = \<lparr>competitors = [], insights = []\<rparr>"

definition pricing_weakness :: weakness where
  "pricing_weakness =
     \<lparr>w_title = ''No free tier'', w_description = ''Every plan is paid'',
      w_severity = High, w_category = ''Pricing''\<rparr>"

definition support_weakness :: weakness where
  "support_weakness =
     \<lparr>w_title = ''Slow support'', w_description = ''Two days to answer'',
      w_severity = Low, w_category = ''Support''\<rparr>"

text \<open>A provider that has no quota left for one model and answers for every other.\<close>

definition quota_provider :: "nat \<Rightarrow> string \<Rightarrow> string \<Rightarrow> provider_failure + string" where
  "quota_provider k p m = (if m = ''gemini-2.5-pro'' then Inl QuotaExceeded else Inr ''1. ...'')"

text \<open>A provider that is down.\<close>

definition down_provider :: "nat \<Rightarrow> string \<Rightarrow> string \<Rightarrow> provider_failure + string" where
  "down_provider k p m = Inl ModelUnavailable"

section \<open>Proofs: the front end\<close>

subsection \<open>handleAnalyze\<close>

text \<open>
  Whatever the input, a request that is sent carries the trimmed input of the URL
  field, not its completion.
\<close>

lemma handleAnalyze_request_body:
  "snd (handleAnalyze e s) = []
   \<or> snd (handleAnalyze e s) =
       [POST (API_BASE_URL e @ js ''/analyze'')
          \<lparr>req_competitor_name = trim (competitorName s),
           req_target_url = trim (targetUrl s), req_model = model s\<rparr>]"
  by (simp add: handleAnalyze_def Let_def)

text \<open>
  C7. The claim: the \<^verbatim>\<open>target_url\<close> of the request body is the completed URL. The
  code completes \<^verbatim>\<open>samsung.com\<close> to \<^verbatim>\<open>https://www.samsung.com\<close>, validates that and
  stores it in the state, and then sends the trimmed input \<^verbatim>\<open>samsung.com\<close> itself.
\<close>

theorem handleAnalyze_posts_raw_url:
  "snd (handleAnalyze example_env samsung_state) =
     [POST (js ''http://localhost:8000/analyze'')
        \<lparr>req_competitor_name = js ''Samsung'', req_target_url = js ''samsung.com'',
         req_model = js ''gemini-2.5-flash-lite''\<rparr>]
   \<and> processedUrl (trim (targetUrl samsung_state)) = js ''https://www.samsung.com''
   \<and> targetUrl (fst (handleAnalyze example_env samsung_state)) = js ''https://www.samsung.com''"
  by (simp add: handleAnalyze_def Let_def samsung_state_def example_env_def empty_storage_def
      trim_def js_def isWhiteSpace_def processedUrl_def startsWith_def initialState_def
      initialModel_def API_BASE_URL_def)

text \<open>
  C8. When the competitor name or the URL is empty after trimming, \<^verbatim>\<open>handleAnalyze\<close>
  sets the error message and sends nothing; the state is otherwise as it was, so the
  analysis result and the active tab are unchanged. Whenever a request is sent, both
  trimmed fields are non-empty and the completed URL parses, and the request is the one
  \<^verbatim>\<open>POST\<close> to \<^verbatim>\<open>/analyze\<close>.
\<close>

theorem handleAnalyze_validation:
  "(trim (competitorName s) = [] \<or> trim (targetUrl s) = [] \<longrightarrow>
      snd (handleAnalyze e s) = []
      \<and> fst (handleAnalyze e s) =
          s\<lparr>error := Some (js ''Please fill in both competitor name and website URL'')\<rparr>
      \<and> analysisResult (fst (handleAnalyze e s)) = analysisResult s
      \<and> activeTab (fst (handleAnalyze e s)) = activeTab s)
   \<and> (snd (handleAnalyze e s) \<noteq> [] \<longrightarrow>
        trim (competitorName s) \<noteq> [] \<and> trim (targetUrl s) \<noteq> []
        \<and> url_parses e (processedUrl (trim (targetUrl s)))
        \<and> (\<exists>body. snd (handleAnalyze e s) = [POST (API_BASE_URL e @ js ''/analyze'') body]))"
  by (simp add: handleAnalyze_def Let_def)

theorem handleAnalyze_validation_witness:
  "trim (competitorName blank_state) = []
   \<and> snd (handleAnalyze example_env blank_state) = []
   \<and> error (fst (handleAnalyze example_env blank_state)) =
       Some (js ''Please fill in both competitor name and website URL'')
   \<and> analysisResult (fst (handleAnalyze example_env blank_state)) = analysisResult blank_state
   \<and> activeTab (fst (handleAnalyze example_env blank_state)) = activeTab blank_state
   \<and> snd (handleAnalyze example_env samsung_state) \<noteq> []
   \<and> trim (competitorName samsung_state) \<noteq> [] \<and> trim (targetUrl samsung_state) \<noteq> []
   \<and> url_parses example_env (processedUrl (trim (targetUrl samsung_state)))"
proof -
  have blank: "trim (competitorName blank_state) = []"
    by (simp add: blank_state_def trim_def js_def isWhiteSpace_def)
  have sent: "snd (handleAnalyze example_env samsung_state) \<noteq> []"
    by (simp add: handleAnalyze_def Let_def samsung_state_def example_env_def trim_def js_def
        isWhiteSpace_def processedUrl_def startsWith_def)
  from blank handleAnalyze_validation [of blank_state example_env]
  have a: "snd (handleAnalyze example_env blank_state) = []
      \<and> fst (handleAnalyze example_env blank_state) =
          blank_state\<lparr>error := Some (js ''Please fill in both competitor name and website URL'')\<rparr>
      \<and> analysisResult (fst (handleAnalyze example_env blank_state)) = analysisResult blank_state
      \<and> activeTab (fst (handleAnalyze example_env blank_state)) = activeTab blank_state"
    by blast
  then have err: "error (fst (handleAnalyze example_env blank_state)) =
       Some (js ''Please fill in both competitor name and website URL'')"
    by simp
  from sent handleAnalyze_validation [of samsung_state example_env]
  have b: "trim (competitorName samsung_state) \<noteq> [] \<and> trim (targetUrl samsung_state) \<noteq> []
        \<and> url_parses example_env (processedUrl (trim (targetUrl samsung_state)))"
    by blast
  from blank sent a err b show ?thesis by blast
qed

subsection \<open>The models request on mount\<close>

lemma init_rejected:
  "get_models e (API_BASE_URL e @ js ''/models'') = ModelsRejected \<Longrightarrow> fst (init e st s) = s"
  by (simp add: init_def Let_def)

lemma init_not_ok:
  "get_models e (API_BASE_URL e @ js ''/models'') = ModelsResponse False b \<Longrightarrow> fst (init e st s) = s"
  by (simp add: init_def Let_def)

lemma init_not_json:
  "get_models e (API_BASE_URL e @ js ''/models'') = ModelsResponse True NotJson \<Longrightarrow>
   fst (init e st s) = s"
  by (simp add: init_def Let_def)

lemma init_no_models:
  "get_models e (API_BASE_URL e @ js ''/models'') = ModelsResponse True (Json None) \<Longrightarrow>
   fst (init e st s) = s"
  by (simp add: init_def Let_def)

lemma init_empty_models:
  "get_models e (API_BASE_URL e @ js ''/models'') = ModelsResponse True (Json (Some [])) \<Longrightarrow>
   fst (init e st s) = s"
  by (simp add: init_def Let_def)

lemma init_models_listed:
  assumes "get_models e (API_BASE_URL e @ js ''/models'') = ModelsResponse True (Json (Some (m # ms)))"
  shows "modelOptions (fst (init e st s)) = m # ms"
    and "model (fst (init e st s)) =
           (if getItem st (js ''preferred_model'') = Returns None
               \<or> getItem st (js ''preferred_model'') = Returns (Some [])
            then opt_id m else model s)"
proof -
  show "modelOptions (fst (init e st s)) = m # ms"
  proof (cases "getItem st (js ''preferred_model'')")
    case Throws
    with assms show ?thesis by (simp add: init_def Let_def)
  next
    case (Returns v)
    with assms show ?thesis by (cases v) (simp_all add: init_def Let_def)
  qed
  show "model (fst (init e st s)) =
           (if getItem st (js ''preferred_model'') = Returns None
               \<or> getItem st (js ''preferred_model'') = Returns (Some [])
            then opt_id m else model s)"
  proof (cases "getItem st (js ''preferred_model'')")
    case Throws
    with assms show ?thesis by (simp add: init_def Let_def)
  next
    case (Returns v)
    with assms show ?thesis by (cases v) (simp_all add: init_def Let_def)
  qed
qed

lemma initialState_model:
  "model (initialState st0) =
     (case getItem st0 (js ''preferred_model'') of
        Returns (Some v) \<Rightarrow> if v = [] then js ''gemini-2.5-flash-lite'' else v
      | _ \<Rightarrow> js ''gemini-2.5-flash-lite'')"
  by (simp add: initialState_def initialModel_def split: js_result.splits option.splits)

text \<open>
  C10, as stated, fails: with \<^verbatim>\<open>preferred_model\<close> stored as the empty string and a
  server that lists a model, the selected model is changed from the default to the
  server's first model although a \<^verbatim>\<open>preferred_model\<close> is stored.
\<close>

theorem init_empty_preference_counterexample:
  "getItem empty_preference (js ''preferred_model'') = Returns (Some [])
   \<and> model (initialState empty_preference) = js ''gemini-2.5-flash-lite''
   \<and> model (fst (init server_env empty_preference (initialState empty_preference)))
       = js ''gemini-2.0-flash''"
  by (simp add: init_def Let_def initialState_def initialModel_def empty_preference_def
      server_env_def example_env_def API_BASE_URL_def)

text \<open>
  C10, amended. The first render has the three bundled model options and selects the
  stored \<^verbatim>\<open>preferred_model\<close> when one is stored and is not empty, and
  \<^verbatim>\<open>gemini-2.5-flash-lite\<close> otherwise. When the models request is rejected, is not ok,
  or gives no JSON, no \<^verbatim>\<open>models\<close> array or an empty one, the effect leaves that state
  as it is. When it gives a non-empty array, the array replaces \<^verbatim>\<open>modelOptions\<close>, and
  the selected model becomes the first listed model's id exactly when the local storage
  can be read and holds no \<^verbatim>\<open>preferred_model\<close> or an empty one; otherwise it stays.
\<close>

theorem init_models:
  "modelOptions (initialState st0) = bundledModelOptions
   \<and> length bundledModelOptions = 3
   \<and> model (initialState st0) =
       (case getItem st0 (js ''preferred_model'') of
          Returns (Some v) \<Rightarrow> if v = [] then js ''gemini-2.5-flash-lite'' else v
        | _ \<Rightarrow> js ''gemini-2.5-flash-lite'')
   \<and> (get_models e (API_BASE_URL e @ js ''/models'') = ModelsRejected
        \<or> (\<exists>b. get_models e (API_BASE_URL e @ js ''/models'') = ModelsResponse False b)
        \<or> get_models e (API_BASE_URL e @ js ''/models'') = ModelsResponse True NotJson
        \<or> get_models e (API_BASE_URL e @ js ''/models'') = ModelsResponse True (Json None)
        \<or> get_models e (API_BASE_URL e @ js ''/models'') = ModelsResponse True (Json (Some []))
      \<longrightarrow> fst (init e st (initialState st0)) = initialState st0)
   \<and> (get_models e (API_BASE_URL e @ js ''/models'') = ModelsResponse True (Json (Some (m # ms)))
      \<longrightarrow> modelOptions (fst (init e st s)) = m # ms
          \<and> model (fst (init e st s)) =
              (if getItem st (js ''preferred_model'') = Returns None
                  \<or> getItem st (js ''preferred_model'') = Returns (Some [])
               then opt_id m else model s))"
proof -
  have a: "modelOptions (initialState st0) = bundledModelOptions"
    by (simp add: initialState_def)
  have b: "length bundledModelOptions = 3"
    by (simp add: bundledModelOptions_def)
  from a b initialState_model [of st0] init_rejected [of e st] init_not_ok [of e _ st]
    init_not_json [of e st] init_no_models [of e st] init_empty_models [of e st]
    init_models_listed [of e m ms st s]
  show ?thesis by blast
qed

theorem init_models_witness:
  "get_models example_env (API_BASE_URL example_env @ js ''/models'') = ModelsRejected
   \<and> fst (init example_env empty_storage (initialState empty_storage)) = initialState empty_storage
   \<and> model (initialState empty_storage) = js ''gemini-2.5-flash-lite''
   \<and> model (initialState flash_preference) = js ''gemini-2.5-flash''
   \<and> modelOptions (fst (init server_env empty_storage (initialState empty_storage)))
       = [\<lparr>opt_id = js ''gemini-2.0-flash'', opt_name = js ''Gemini 2.0 Flash'',
           opt_daily = js ''200'', opt_note = None\<rparr>]
   \<and> model (fst (init server_env empty_storage (initialState empty_storage)))
       = js ''gemini-2.0-flash''
   \<and> model (fst (init server_env flash_preference (initialState flash_preference)))
       = js ''gemini-2.5-flash''"
proof -
  let ?m = "\<lparr>opt_id = js ''gemini-2.0-flash'', opt_name = js ''Gemini 2.0 Flash'',
           opt_daily = js ''200'', opt_note = None\<rparr>"
  have rej: "get_models example_env (API_BASE_URL example_env @ js ''/models'') = ModelsRejected"
    by (simp add: example_env_def)
  have lst: "get_models server_env (API_BASE_URL server_env @ js ''/models'')
             = ModelsResponse True (Json (Some (?m # [])))"
    by (simp add: server_env_def)
  have g1: "getItem empty_storage (js ''preferred_model'') = Returns None"
    by (simp add: empty_storage_def)
  have g2: "getItem flash_preference (js ''preferred_model'') = Returns (Some (js ''gemini-2.5-flash''))"
    by (simp add: flash_preference_def)
  have ne: "js ''gemini-2.5-flash'' \<noteq> []"
    by (simp add: js_def)
  from rej init_models [where st0 = empty_storage and e = example_env and st = empty_storage]
  have a: "fst (init example_env empty_storage (initialState empty_storage)) = initialState empty_storage"
    by blast
  from init_models [where st0 = empty_storage] g1
  have b: "model (initialState empty_storage) = js ''gemini-2.5-flash-lite''"
    by simp
  from init_models [where st0 = flash_preference] g2 ne
  have c: "model (initialState flash_preference) = js ''gemini-2.5-flash''"
    by simp
  from lst init_models [where e = server_env and m = ?m and ms = "[]" and st = empty_storage
      and s = "initialState empty_storage"] g1
  have d: "modelOptions (fst (init server_env empty_storage (initialState empty_storage))) = [?m]"
    "model (fst (init server_env empty_storage (initialState empty_storage))) = js ''gemini-2.0-flash''"
    by simp_all
  from lst init_models [where e = server_env and m = ?m and ms = "[]" and st = flash_preference
      and s = "initialState flash_preference"] g2 ne c
  have e: "model (fst (init server_env flash_preference (initialState flash_preference))) = js ''gemini-2.5-flash''"
    by simp
  from rej a b c d e show ?thesis by simp
qed

subsection \<open>exportCSV\<close>

lemma readCells_body:
  "readCells InCell tbl row cell (replaceAll 0x22 [0x22, 0x22] c @ 0x22 # rest)
   = readCells QuoteSeen tbl row (cell @ c) rest"
  by (induction c arbitrary: cell) (simp_all add: replaceAll_def)

lemma readCells_quoteCell:
  "readCells CellStart tbl row cell (quoteCell c @ rest) = readCells QuoteSeen tbl row c rest"
  using readCells_body [of tbl row "[]" c rest] by (simp add: quoteCell_def)

lemma readCells_line:
  "cells \<noteq> [] \<Longrightarrow>
   readCells CellStart tbl row cell (join [0x2C] (map quoteCell cells) @ rest)
   = readCells QuoteSeen tbl (row @ butlast cells) (last cells) rest"
proof (induction cells arbitrary: row cell)
  case Nil
  then show ?case by simp
next
  case (Cons c cells)
  show ?case
  proof (cases cells)
    case Nil
    then show ?thesis by (simp add: readCells_quoteCell)
  next
    case (Cons d ds)
    with Cons.IH [of "row @ [c]" "[]"] show ?thesis
      by (simp add: readCells_quoteCell)
  qed
qed

lemma readCells_table:
  "table \<noteq> [] \<Longrightarrow> [] \<notin> set table \<Longrightarrow>
   readCells CellStart tbl [] cell
     (join [0xA] (map (\<lambda>row. join [0x2C] (map quoteCell row)) table))
   = Some (tbl @ table)"
proof (induction table arbitrary: tbl cell)
  case Nil
  then show ?case by simp
next
  case (Cons r table)
  then have r: "r \<noteq> []" by auto
  show ?case
  proof (cases table)
    case Nil
    with readCells_line [OF r, of tbl "[]" cell "[]"] r show ?thesis by simp
  next
    case (Cons r' rs)
    with Cons.IH [of "tbl @ [r]" "[]"] Cons.prems
      readCells_line [OF r, of tbl "[]" cell
        "0xA # join [0xA] (map (\<lambda>row. join [0x2C] (map quoteCell row)) table)"] r
    show ?thesis by simp
  qed
qed

lemma readCSV_csvContent: "readCSV (csvContent r) = Some (headers # rows r)"
proof -
  have "[] \<notin> set (headers # rows r)"
    by (auto simp: headers_def rows_def)
  from readCells_table [OF _ this, of "[]" "[]"]
  show ?thesis by (simp add: readCSV_def csvContent_def)
qed

lemma length_rows: "length (rows r) = length (weaknesses r)"
  by (simp add: rows_def)

lemma nth_rows:
  "i < length (weaknesses r) \<Longrightarrow>
   rows r ! i = [String_nat (Suc i), title (weaknesses r ! i),
                 replaceAll 0xA (js '' '') (description (weaknesses r ! i)),
                 severity_str (severity (weaknesses r ! i)), category (weaknesses r ! i)]"
  by (simp add: rows_def nth_enumerate_eq)

lemma replaceAll_no_newline: "0xA \<notin> set (replaceAll 0xA (js '' '') d)"
  by (induction d) (simp_all add: replaceAll_def js_def)

lemma unat_digit: "k < 10 \<Longrightarrow> unat (48 + of_nat k :: 16 word) = 48 + k"
proof -
  assume k: "k < 10"
  have "unat (of_nat (48 + k) :: 16 word) = (48 + k) mod 2 ^ 16"
    by (simp add: unat_of_nat del: of_nat_add)
  with k show ?thesis by simp
qed

lemma decimalValue_String_nat: "decimalValue (String_nat n) = n"
proof (induction n rule: String_nat.induct)
  case (1 n)
  show ?case
  proof (cases "n < 10")
    case True
    then show ?thesis
      by (subst String_nat.simps) (simp add: decimalValue_def unat_digit)
  next
    case False
    with 1 show ?thesis
      by (subst String_nat.simps) (simp add: decimalValue_def unat_digit)
  qed
qed

text \<open>
  C9. With no result, \<^verbatim>\<open>exportCSV\<close> does nothing. With a result of \<open>n\<close> weaknesses it
  downloads a byte order mark followed by a text that reads back, as a CSV of quoted
  cells, into \<open>n + 1\<close> rows: the header row, then for each weakness, in the stored
  order, the row of its index counted from 1 (in decimal), its title, its description
  with every line feed replaced by a space, its severity and its category. The text is
  these rows joined by line feeds, the cells of a row joined by commas, each cell
  between double quotes with its own double quotes doubled.
\<close>

theorem exportCSV_table:
  "exportCSV None = None
   \<and> (\<exists>d. exportCSV (Some r) = Some d \<and> content d = 0xFEFF # csvContent r)
   \<and> (\<exists>table. readCSV (csvContent r) = Some table
        \<and> csvContent r =
            join [0xA]
              (map (\<lambda>row. join [0x2C]
                      (map (\<lambda>c. [0x22] @ replaceAll 0x22 [0x22, 0x22] c @ [0x22]) row)) table)
        \<and> length table = Suc (length (weaknesses r))
        \<and> table ! 0 = [js ''#'', js ''Title'', js ''Description'', js ''Severity'', js ''Category'']
        \<and> (\<forall>i < length (weaknesses r).
              table ! Suc i =
                [String_nat (Suc i), title (weaknesses r ! i),
                 replaceAll 0xA (js '' '') (description (weaknesses r ! i)),
                 severity_str (severity (weaknesses r ! i)), category (weaknesses r ! i)]
              \<and> decimalValue (String_nat (Suc i)) = Suc i
              \<and> 0xA \<notin> set (replaceAll 0xA (js '' '') (description (weaknesses r ! i)))))"
proof -
  have a: "exportCSV None = None" by (simp add: exportCSV_def)
  have b: "\<exists>d. exportCSV (Some r) = Some d \<and> content d = 0xFEFF # csvContent r"
    by (simp add: exportCSV_def Let_def)
  have c: "length (headers # rows r) = Suc (length (weaknesses r))"
    by (simp add: length_rows)
  have d: "(headers # rows r) ! 0
           = [js ''#'', js ''Title'', js ''Description'', js ''Severity'', js ''Category'']"
    by (simp add: headers_def)
  have e: "\<forall>i < length (weaknesses r).
              (headers # rows r) ! Suc i =
                [String_nat (Suc i), title (weaknesses r ! i),
                 replaceAll 0xA (js '' '') (description (weaknesses r ! i)),
                 severity_str (severity (weaknesses r ! i)), category (weaknesses r ! i)]
              \<and> decimalValue (String_nat (Suc i)) = Suc i
              \<and> 0xA \<notin> set (replaceAll 0xA (js '' '') (description (weaknesses r ! i)))"
    using nth_rows [of _ r] decimalValue_String_nat replaceAll_no_newline by simp
  have f: "csvContent r =
            join [0xA]
              (map (\<lambda>row. join [0x2C]
                      (map (\<lambda>c. [0x22] @ replaceAll 0x22 [0x22, 0x22] c @ [0x22]) row))
                 (headers # rows r))"
  proof -
    have q: "quoteCell = (\<lambda>c. [0x22] @ replaceAll 0x22 [0x22, 0x22] c @ [0x22])"
      by (rule ext) (rule quoteCell_def)
    show ?thesis by (simp only: csvContent_def q)
  qed
  from a b c d e f readCSV_csvContent [of r] show ?thesis by blast
qed

theorem exportCSV_table_witness:
  "Suc 0 < length (weaknesses example_result)
   \<and> (\<exists>table. readCSV (csvContent example_result) = Some table
        \<and> length table = 3
        \<and> table ! Suc 0 =
            [js ''1'', js ''No \"pro\" plan'', js ''Pricing page is thin'', js ''high'', js ''Pricing'']
        \<and> table ! Suc (Suc 0) =
            [js ''2'', js ''Slow support'', js ''Two days to answer'', js ''low'', js ''Support''])"
proof -
  have len: "length (weaknesses example_result) = 2"
    by (simp add: example_result_def)
  from exportCSV_table [of example_result] obtain table where
    t: "readCSV (csvContent example_result) = Some table"
      "length table = Suc (length (weaknesses example_result))"
    and rows: "\<forall>i < length (weaknesses example_result).
              table ! Suc i =
                [String_nat (Suc i), title (weaknesses example_result ! i),
                 replaceAll 0xA (js '' '') (description (weaknesses example_result ! i)),
                 severity_str (severity (weaknesses example_result ! i)),
                 category (weaknesses example_result ! i)]"
    by blast
  from rows len have r1: "table ! Suc 0 =
                [String_nat (Suc 0), title (weaknesses example_result ! 0),
                 replaceAll 0xA (js '' '') (description (weaknesses example_result ! 0)),
                 severity_str (severity (weaknesses example_result ! 0)),
                 category (weaknesses example_result ! 0)]"
    by simp
  from rows len have r2: "table ! Suc (Suc 0) =
                [String_nat (Suc (Suc 0)), title (weaknesses example_result ! Suc 0),
                 replaceAll 0xA (js '' '') (description (weaknesses example_result ! Suc 0)),
                 severity_str (severity (weaknesses example_result ! Suc 0)),
                 category (weaknesses example_result ! Suc 0)]"
    by simp
  have s1: "String_nat (Suc 0) = js ''1''" "String_nat (Suc (Suc 0)) = js ''2''"
    by (simp_all add: String_nat.simps js_def)
  have d2: "replaceAll 0xA (js '' '') (js ''Two days'' @ [0xA] @ js ''to answer'') = js ''Two days to answer''"
    by (simp add: replaceAll_def js_def)
  have d1: "replaceAll 0xA (js '' '') (js ''Pricing page is thin'') = js ''Pricing page is thin''"
    by (simp add: replaceAll_def js_def)
  from r1 s1 d1 have r1': "table ! Suc 0 =
            [js ''1'', js ''No \"pro\" plan'', js ''Pricing page is thin'', js ''high'', js ''Pricing'']"
    by (simp add: example_result_def)
  from r2 s1 d2 have r2': "table ! Suc (Suc 0) =
            [js ''2'', js ''Slow support'', js ''Two days to answer'', js ''low'', js ''Support'']"
    by (simp add: example_result_def)
  from len t r1' r2' show ?thesis by simp
qed

section \<open>Proofs: the store and the back end\<close>

subsection \<open>The Persistence Gateway\<close>

lemma foldr_max_ge: "x \<in> set xs \<Longrightarrow> x \<le> foldr max xs (0::nat)"
  by (induction xs) auto

lemma gen_random_uuid_fresh: "gen_random_uuid used \<notin> set used"
  using foldr_max_ge [of "gen_random_uuid used" used] by (auto simp: gen_random_uuid_def)

lemma severity_text_check: "severity_text s \<in> {''high'', ''medium'', ''low''}"
  by (cases s) simp_all

lemma insert_insights_ok:
  "\<forall>v \<in> set vs. v_competitor_id v \<in> set (map c_id (competitors db))
                \<and> v_severity v \<in> {''high'', ''medium'', ''low''} \<Longrightarrow>
   \<exists>new. insert_insights now vs db = Inr (db\<lparr>insights := insights db @ new\<rparr>)
        \<and> list_all2 (\<lambda>v r. i_competitor_id r = v_competitor_id v
                           \<and> i_weakness_title r = v_weakness_title v
                           \<and> i_weakness_description r = v_weakness_description v
                           \<and> i_severity r = v_severity v
                           \<and> i_category r = v_category v \<and> i_created_at r = now) vs new
        \<and> (distinct (map i_id (insights db)) \<longrightarrow> distinct (map i_id (insights db @ new)))"
proof (induction vs arbitrary: db)
  case Nil
  show ?case by (rule exI [of _ "[]"]) simp
next
  case (Cons v vs)
  let ?row = "\<lparr>i_id = gen_random_uuid (map i_id (insights db)),
                i_competitor_id = v_competitor_id v,
                i_weakness_title = v_weakness_title v,
                i_weakness_description = v_weakness_description v,
                i_severity = v_severity v,
                i_category = v_category v,
                i_created_at = now\<rparr>"
  let ?db = "db\<lparr>insights := insights db @ [?row]\<rparr>"
  from Cons.prems have "\<forall>v \<in> set vs. v_competitor_id v \<in> set (map c_id (competitors ?db))
                \<and> v_severity v \<in> {''high'', ''medium'', ''low''}" by simp
  from Cons.IH [OF this] obtain new where
    new: "insert_insights now vs ?db = Inr (?db\<lparr>insights := insights ?db @ new\<rparr>)"
      "list_all2 (\<lambda>v r. i_competitor_id r = v_competitor_id v
                           \<and> i_weakness_title r = v_weakness_title v
                           \<and> i_weakness_description r = v_weakness_description v
                           \<and> i_severity r = v_severity v
                           \<and> i_category r = v_category v \<and> i_created_at r = now) vs new"
      "distinct (map i_id (insights ?db)) \<longrightarrow> distinct (map i_id (insights ?db @ new))"
    by blast
  have fresh: "gen_random_uuid (map i_id (insights db)) \<notin> set (map i_id (insights db))"
    by (rule gen_random_uuid_fresh)
  show ?case
  proof (rule exI [of _ "?row # new"], intro conjI)
    from Cons.prems new(1)
    show "insert_insights now (v # vs) db = Inr (db\<lparr>insights := insights db @ ?row # new\<rparr>)"
      by simp
    from new(2) show "list_all2 (\<lambda>v r. i_competitor_id r = v_competitor_id v
                           \<and> i_weakness_title r = v_weakness_title v
                           \<and> i_weakness_description r = v_weakness_description v
                           \<and> i_severity r = v_severity v
                           \<and> i_category r = v_category v \<and> i_created_at r = now) (v # vs) (?row # new)"
      by simp
    from new(3) fresh
    show "distinct (map i_id (insights db)) \<longrightarrow> distinct (map i_id (insights db @ ?row # new))"
      by auto
  qed
qed



lemma find_name_None: "find (\<lambda>r. c_name r = n) rs = None \<Longrightarrow> n \<notin> set (map c_name rs)"
  by (induction rs) (auto split: if_splits)

lemma find_name_Some:
  "find (\<lambda>r. c_name r = n) rs = Some r \<Longrightarrow> r \<in> set rs \<and> c_name r = n"
  by (induction rs) (auto split: if_splits)

lemma filter_name_absent: "n \<notin> set (map c_name rs) \<Longrightarrow> filter (\<lambda>r. c_name r = n) rs = []"
  by (induction rs) auto

lemma filter_name_unique:
  "distinct (map c_name rs) \<Longrightarrow> r \<in> set rs \<Longrightarrow>
   filter (\<lambda>x. c_name x = c_name r) rs = [r]"
proof (induction rs)
  case Nil
  then show ?case by simp
next
  case (Cons a rs)
  show ?case
  proof (cases "a = r")
    case True
    with Cons.prems have "c_name r \<notin> set (map c_name rs)" by simp
    with True show ?thesis by (simp add: filter_name_absent)
  next
    case False
    with Cons.prems have "r \<in> set rs" "c_name a \<noteq> c_name r" by force+
    with Cons show ?thesis by simp
  qed
qed

lemma touch_keys [simp]: "c_id (touch now n u r) = c_id r" "c_name (touch now n u r) = c_name r"
  by (simp_all add: touch_def)

lemma touch_comp [simp]: "c_id \<circ> touch now n u = c_id" "c_name \<circ> touch now n u = c_name"
  by (simp_all add: fun_eq_iff)

lemma filter_touch:
  "filter (\<lambda>x. c_name x = n) (map (touch now n u) rs)
   = map (\<lambda>r. r\<lparr>c_target_url := u, c_updated_at := now\<rparr>) (filter (\<lambda>x. c_name x = n) rs)"
  by (induction rs) (simp_all add: touch_def)

lemma update_competitor_touch:
  "update_competitor now n u db = db\<lparr>competitors := map (touch now n u) (competitors db)\<rparr>"
  by (simp add: update_competitor_def touch_def)

lemma upsertCompetitor_row:
  assumes "distinct (map c_id (competitors db))" "distinct (map c_name (competitors db))"
  shows "\<exists>cid db1 r. upsertCompetitor now n u db = Inr (cid, db1)
           \<and> insights db1 = insights db
           \<and> distinct (map c_id (competitors db1)) \<and> distinct (map c_name (competitors db1))
           \<and> set (map c_id (competitors db)) \<subseteq> set (map c_id (competitors db1))
           \<and> filter (\<lambda>x. c_name x = n) (competitors db1) = [r]
           \<and> c_id r = cid \<and> c_target_url r = u \<and> c_updated_at r = now
           \<and> (\<forall>r0. filter (\<lambda>x. c_name x = n) (competitors db) = [r0] \<longrightarrow> c_id r0 = cid)
           \<and> length (competitors db1) =
               (if n \<in> set (map c_name (competitors db)) then length (competitors db)
                else Suc (length (competitors db)))"
proof (cases "find (\<lambda>r. c_name r = n) (competitors db)")
  case None
  then have absent: "n \<notin> set (map c_name (competitors db))" by (rule find_name_None)
  let ?i = "gen_random_uuid (map c_id (competitors db))"
  let ?r = "\<lparr>c_id = ?i, c_name = n, c_target_url = u, c_created_at = now, c_updated_at = now\<rparr>"
  have fresh: "?i \<notin> set (map c_id (competitors db))" by (rule gen_random_uuid_fresh)
  have up: "upsertCompetitor now n u db = Inr (?i, db\<lparr>competitors := competitors db @ [?r]\<rparr>)"
    using None absent by (simp add: upsertCompetitor_def insert_competitor_def Let_def)
  have flt: "filter (\<lambda>x. c_name x = n) (competitors db @ [?r]) = [?r]"
    using absent by (simp add: filter_name_absent)
  have none: "filter (\<lambda>x. c_name x = n) (competitors db) = []"
    using absent by (rule filter_name_absent)
  show ?thesis
    apply (rule exI [of _ ?i], rule exI [of _ "db\<lparr>competitors := competitors db @ [?r]\<rparr>"],
        rule exI [of _ ?r])
    using up flt none assms fresh absent by auto
next
  case (Some r0)
  then have r0: "r0 \<in> set (competitors db)" "c_name r0 = n" by (auto dest: find_name_Some)
  let ?db = "db\<lparr>competitors := map (touch now n u) (competitors db)\<rparr>"
  have up: "upsertCompetitor now n u db = Inr (c_id r0, ?db)"
    using Some by (simp add: upsertCompetitor_def update_competitor_touch)
  have old: "filter (\<lambda>x. c_name x = n) (competitors db) = [r0]"
    using filter_name_unique [OF assms(2) r0(1)] r0(2) by simp
  have flt: "filter (\<lambda>x. c_name x = n) (competitors ?db) = [r0\<lparr>c_target_url := u, c_updated_at := now\<rparr>]"
    by (simp add: filter_touch old)
  show ?thesis
    apply (rule exI [of _ "c_id r0"], rule exI [of _ ?db],
        rule exI [of _ "r0\<lparr>c_target_url := u, c_updated_at := now\<rparr>"])
    using up flt old assms r0 by force
qed


lemma save_once:
  assumes "constraints_hold db"
  shows "\<exists>cid db' r new.
           save now n u ws db = (Inr cid, db')
           \<and> constraints_hold db'
           \<and> filter (\<lambda>x. c_name x = n) (competitors db') = [r]
           \<and> c_id r = cid \<and> c_target_url r = u \<and> c_updated_at r = now
           \<and> (\<forall>r0. filter (\<lambda>x. c_name x = n) (competitors db) = [r0] \<longrightarrow> c_id r0 = cid)
           \<and> length (competitors db') =
               (if n \<in> set (map c_name (competitors db)) then length (competitors db)
                else Suc (length (competitors db)))
           \<and> insights db' = insights db @ new
           \<and> list_all2 (insight_of cid) ws new"
proof -
  from assms have d: "distinct (map c_id (competitors db))" "distinct (map c_name (competitors db))"
    by (simp_all add: constraints_hold_def)
  from upsertCompetitor_row [OF d, of now n u] obtain cid db1 r where
    up: "upsertCompetitor now n u db = Inr (cid, db1)"
    and ins1: "insights db1 = insights db"
    and d1: "distinct (map c_id (competitors db1))" "distinct (map c_name (competitors db1))"
    and sub: "set (map c_id (competitors db)) \<subseteq> set (map c_id (competitors db1))"
    and flt: "filter (\<lambda>x. c_name x = n) (competitors db1) = [r]"
    and r: "c_id r = cid" "c_target_url r = u" "c_updated_at r = now"
    and same: "\<forall>r0. filter (\<lambda>x. c_name x = n) (competitors db) = [r0] \<longrightarrow> c_id r0 = cid"
    and len: "length (competitors db1) =
               (if n \<in> set (map c_name (competitors db)) then length (competitors db)
                else Suc (length (competitors db)))"
    by blast
  let ?vs = "map (\<lambda>w. \<lparr>v_competitor_id = cid, v_weakness_title = w_title w,
                   v_weakness_description = w_description w,
                   v_severity = severity_text (w_severity w),
                   v_category = w_category w\<rparr>) ws"
  have "r \<in> set (filter (\<lambda>x. c_name x = n) (competitors db1))"
    by (simp add: flt)
  then have "r \<in> set (competitors db1)" by simp
  with r(1) have cid_in: "cid \<in> set (map c_id (competitors db1))" by force
  then have ok: "\<forall>v \<in> set ?vs. v_competitor_id v \<in> set (map c_id (competitors db1))
                \<and> v_severity v \<in> {''high'', ''medium'', ''low''}"
    using severity_text_check by auto
  from insert_insights_ok [OF ok, of now] obtain new where
    ii: "insert_insights now ?vs db1 = Inr (db1\<lparr>insights := insights db1 @ new\<rparr>)"
    and all2: "list_all2 (\<lambda>v r. i_competitor_id r = v_competitor_id v
                           \<and> i_weakness_title r = v_weakness_title v
                           \<and> i_weakness_description r = v_weakness_description v
                           \<and> i_severity r = v_severity v
                           \<and> i_category r = v_category v \<and> i_created_at r = now) ?vs new"
    and dist: "distinct (map i_id (insights db1)) \<longrightarrow> distinct (map i_id (insights db1 @ new))"
    by blast
  let ?db' = "db1\<lparr>insights := insights db1 @ new\<rparr>"
  have sv: "save now n u ws db = (Inr cid, ?db')"
    using up ii by (simp add: save_def insertInsights_def)
  from all2 have of: "list_all2 (insight_of cid) ws new"
    by (auto simp: list_all2_map1 insight_of_def elim!: list_all2_mono)
  have new_ok: "\<forall>x \<in> set new. i_competitor_id x = cid \<and> i_severity x \<in> {''high'', ''medium'', ''low''}"
  proof
    fix x assume "x \<in> set new"
    then obtain k where k: "k < length new" "new ! k = x" by (auto simp: in_set_conv_nth)
    from of k have "insight_of cid (ws ! k) x" by (auto simp: list_all2_conv_all_nth)
    then show "i_competitor_id x = cid \<and> i_severity x \<in> {''high'', ''medium'', ''low''}"
      using severity_text_check [of "w_severity (ws ! k)"] by (simp add: insight_of_def)
  qed
  have ch: "constraints_hold ?db'"
    using assms d1 dist ins1 sub new_ok cid_in
    by (auto simp: constraints_hold_def)
  show ?thesis
    apply (rule exI [of _ cid], rule exI [of _ ?db'], rule exI [of _ r], rule exI [of _ new])
    using sv ch flt r same ins1 of len by simp
qed

text \<open>
  C6. In a database that satisfies the constraints of the schema, two calls of
  \<^verbatim>\<open>save\<close> with the same competitor name both succeed and return the same competitor
  id. Afterwards exactly one competitor row has that name; it has that id, the target
  URL of the second call and the second call's time as \<^verbatim>\<open>updated_at\<close>. The first call
  inserts a competitor row only when the name was absent, and the second call inserts
  none. The insight rows are the ones there were, then one per weakness of the first
  call, then one per weakness of the second call, each with the fields of its weakness
  and the id of that competitor row; the constraints of the schema still hold.
\<close>

theorem save_twice:
  assumes "constraints_hold db"
  shows "\<exists>cid db1 db2 r new1 new2.
           save t1 n u1 ws1 db = (Inr cid, db1)
           \<and> save t2 n u2 ws2 db1 = (Inr cid, db2)
           \<and> filter (\<lambda>x. c_name x = n) (competitors db2) = [r]
           \<and> c_id r = cid \<and> c_target_url r = u2 \<and> c_updated_at r = t2
           \<and> length (competitors db1) =
               (if n \<in> set (map c_name (competitors db)) then length (competitors db)
                else Suc (length (competitors db)))
           \<and> length (competitors db2) = length (competitors db1)
           \<and> insights db2 = insights db @ new1 @ new2
           \<and> list_all2 (insight_of cid) ws1 new1
           \<and> list_all2 (insight_of cid) ws2 new2
           \<and> constraints_hold db2"
proof -
  from save_once [OF assms, of t1 n u1 ws1] obtain cid db1 r1 new1 where
    s1: "save t1 n u1 ws1 db = (Inr cid, db1)" and c1: "constraints_hold db1"
    and f1: "filter (\<lambda>x. c_name x = n) (competitors db1) = [r1]" and id1: "c_id r1 = cid"
    and l1: "length (competitors db1) =
               (if n \<in> set (map c_name (competitors db)) then length (competitors db)
                else Suc (length (competitors db)))"
    and i1: "insights db1 = insights db @ new1" and a1: "list_all2 (insight_of cid) ws1 new1"
    by blast
  from save_once [OF c1, of t2 n u2 ws2] obtain cid2 db2 r2 new2 where
    s2: "save t2 n u2 ws2 db1 = (Inr cid2, db2)" and c2: "constraints_hold db2"
    and f2: "filter (\<lambda>x. c_name x = n) (competitors db2) = [r2]"
    and r2: "c_id r2 = cid2" "c_target_url r2 = u2" "c_updated_at r2 = t2"
    and same: "\<forall>r0. filter (\<lambda>x. c_name x = n) (competitors db1) = [r0] \<longrightarrow> c_id r0 = cid2"
    and l2: "length (competitors db2) =
               (if n \<in> set (map c_name (competitors db1)) then length (competitors db1)
                else Suc (length (competitors db1)))"
    and i2: "insights db2 = insights db1 @ new2" and a2: "list_all2 (insight_of cid2) ws2 new2"
    by blast
  from same f1 id1 have eq: "cid2 = cid" by simp
  have "r1 \<in> set (filter (\<lambda>x. c_name x = n) (competitors db1))"
    by (simp add: f1)
  then have "n \<in> set (map c_name (competitors db1))" by force
  with l2 have l2': "length (competitors db2) = length (competitors db1)" by simp
  show ?thesis
    apply (rule exI [of _ cid], rule exI [of _ db1], rule exI [of _ db2], rule exI [of _ r2],
        rule exI [of _ new1], rule exI [of _ new2])
    using s1 s2 f2 r2 i1 i2 a1 a2 c2 eq l1 l2' by simp
qed

theorem save_twice_witness:
  "constraints_hold empty_db
   \<and> (\<exists>cid db1 db2 r new1 new2.
         save 1 ''Acme'' ''https://acme.example'' [pricing_weakness] empty_db = (Inr cid, db1)
         \<and> save 2 ''Acme'' ''https://www.acme.example'' [support_weakness] db1 = (Inr cid, db2)
         \<and> filter (\<lambda>x. c_name x = ''Acme'') (competitors db2) = [r]
         \<and> c_id r = cid \<and> c_target_url r = ''https://www.acme.example'' \<and> c_updated_at r = 2
         \<and> length (competitors db1) = Suc 0
         \<and> length (competitors db2) = Suc 0
         \<and> insights db2 = new1 @ new2
         \<and> list_all2 (insight_of cid) [pricing_weakness] new1
         \<and> list_all2 (insight_of cid) [support_weakness] new2)"
proof -
  have h: "constraints_hold empty_db"
    by (simp add: constraints_hold_def empty_db_def)
  have e: "competitors empty_db = []" "insights empty_db = []"
    by (simp_all add: empty_db_def)
  from save_twice [OF h, of 1 "''Acme''" "''https://acme.example''" "[pricing_weakness]"
      2 "''https://www.acme.example''" "[support_weakness]"]
  obtain cid db1 db2 r new1 new2 where
    "save 1 ''Acme'' ''https://acme.example'' [pricing_weakness] empty_db = (Inr cid, db1)"
    "save 2 ''Acme'' ''https://www.acme.example'' [support_weakness] db1 = (Inr cid, db2)"
    "filter (\<lambda>x. c_name x = ''Acme'') (competitors db2) = [r]"
    "c_id r = cid" "c_target_url r = ''https://www.acme.example''" "c_updated_at r = 2"
    "length (competitors db1) = Suc 0"
    "length (competitors db2) = Suc 0"
    "insights db2 = new1 @ new2"
    "list_all2 (insight_of cid) [pricing_weakness] new1"
    "list_all2 (insight_of cid) [support_weakness] new2"
    unfolding e by auto
  with h show ?thesis by blast
qed

subsection \<open>The Generation Client Adapter\<close>

text \<open>
  C2. When the provider fails on the requested model id: if the id is not the default,
  the calls made are the one with the requested id and one retry with the default id, and
  no more; if it is the default, the only call is the first. When every call made has
  failed, \<^verbatim>\<open>generate\<close> fails with \<^verbatim>\<open>GenerationUnavailable\<close>, which carries the ids of
  the calls made. (When the retry succeeds, its text is the result.)
\<close>

theorem generate_fallback:
  assumes "provider 0 prompt effectiveId = Inl failure"
  shows "(effectiveId \<noteq> defaultId \<longrightarrow>
            snd (generate provider defaultId prompt effectiveId) = [effectiveId, defaultId])
       \<and> (effectiveId = defaultId \<longrightarrow>
            snd (generate provider defaultId prompt effectiveId) = [effectiveId])
       \<and> ((effectiveId \<noteq> defaultId \<longrightarrow> (\<exists>failure'. provider 1 prompt defaultId = Inl failure')) \<longrightarrow>
            fst (generate provider defaultId prompt effectiveId)
            = Inl (GenerationUnavailable (snd (generate provider defaultId prompt effectiveId))))
       \<and> (\<forall>rawText. effectiveId \<noteq> defaultId \<and> provider 1 prompt defaultId = Inr rawText \<longrightarrow>
            fst (generate provider defaultId prompt effectiveId) = Inr rawText)"
  using assms by (auto simp: generate_def split: sum.splits)

theorem generate_fallback_witness:
  "quota_provider 0 ''prompt'' ''gemini-2.5-pro'' = Inl QuotaExceeded
   \<and> generate quota_provider ''gemini-2.5-flash-lite'' ''prompt'' ''gemini-2.5-pro''
       = (Inr ''1. ...'', [''gemini-2.5-pro'', ''gemini-2.5-flash-lite''])
   \<and> generate down_provider ''gemini-2.5-flash-lite'' ''prompt'' ''gemini-2.5-pro''
       = (Inl (GenerationUnavailable [''gemini-2.5-pro'', ''gemini-2.5-flash-lite'']),
          [''gemini-2.5-pro'', ''gemini-2.5-flash-lite''])
   \<and> generate down_provider ''gemini-2.5-flash-lite'' ''prompt'' ''gemini-2.5-flash-lite''
       = (Inl (GenerationUnavailable [''gemini-2.5-flash-lite'']), [''gemini-2.5-flash-lite''])"
proof -
  have q: "quota_provider 0 ''prompt'' ''gemini-2.5-pro'' = Inl QuotaExceeded"
    "quota_provider 1 ''prompt'' ''gemini-2.5-flash-lite'' = Inr ''1. ...''"
    by (simp_all add: quota_provider_def)
  have d: "down_provider 0 ''prompt'' ''gemini-2.5-pro'' = Inl ModelUnavailable"
    "down_provider 0 ''prompt'' ''gemini-2.5-flash-lite'' = Inl ModelUnavailable"
    "down_provider 1 ''prompt'' ''gemini-2.5-flash-lite'' = Inl ModelUnavailable"
    by (simp_all add: down_provider_def)
  have ne: "''gemini-2.5-pro'' \<noteq> ''gemini-2.5-flash-lite''" by simp
  from generate_fallback [where provider = quota_provider and prompt = "''prompt''"
      and effectiveId = "''gemini-2.5-pro''" and defaultId = "''gemini-2.5-flash-lite''", OF q(1)] q(2) ne
  have a: "generate quota_provider ''gemini-2.5-flash-lite'' ''prompt'' ''gemini-2.5-pro''
       = (Inr ''1. ...'', [''gemini-2.5-pro'', ''gemini-2.5-flash-lite''])"
    by (simp add: prod_eq_iff)
  from generate_fallback [where provider = down_provider and prompt = "''prompt''"
      and effectiveId = "''gemini-2.5-pro''" and defaultId = "''gemini-2.5-flash-lite''", OF d(1)] d(3) ne
  have b: "generate down_provider ''gemini-2.5-flash-lite'' ''prompt'' ''gemini-2.5-pro''
       = (Inl (GenerationUnavailable [''gemini-2.5-pro'', ''gemini-2.5-flash-lite'']),
          [''gemini-2.5-pro'', ''gemini-2.5-flash-lite''])"
    by (simp add: prod_eq_iff)
  from generate_fallback [where provider = down_provider and prompt = "''prompt''"
      and effectiveId = "''gemini-2.5-flash-lite''" and defaultId = "''gemini-2.5-flash-lite''", OF d(2)]
  have c: "generate down_provider ''gemini-2.5-flash-lite'' ''prompt'' ''gemini-2.5-flash-lite''
       = (Inl (GenerationUnavailable [''gemini-2.5-flash-lite'']), [''gemini-2.5-flash-lite''])"
    by (simp add: prod_eq_iff)
  from q(1) a b c show ?thesis by simp
qed

end
